theory Spec2Isabelle
  imports Complex_Main "HOL-Library.Sublist"
begin

section \<open>JavaScript values and errors\<close>

text \<open>
  The handlers are TypeScript over values of type \<open>any\<close>: the parsed body of the
  request, the document the backend returns, the thrown errors. A value is modelled as a
  JSON value, extended by \<open>undefined\<close> and by the built-in members a property access can
  reach through the prototype chain. A number is the exact rational value of its double
  (\<open>NaN\<close> and the infinities do not occur in JSON text). A string is a list of characters.
\<close>

datatype jsval =
    JUndefined
  | JNull
  | JBool bool
  | JNum rat
  | JStr string
  | JArr "jsval list"
  | JObj "(string \<times> jsval) list"
  | JBuiltin string

text \<open>A thrown value: the three error classes the code and the runtime raise, with
  their message.\<close>

datatype js_error = Error string | TypeError string | SyntaxError string

text \<open>Truthiness, as \<open>!x\<close> and \<open>x || y\<close> read it.\<close>

fun truthy :: "jsval \<Rightarrow> bool" where
  "truthy JUndefined = False"
| "truthy JNull = False"
| "truthy (JBool b) = b"
| "truthy (JNum n) = (n \<noteq> 0)"
| "truthy (JStr s) = (s \<noteq> [])"
| "truthy (JArr xs) = True"
| "truthy (JObj kvs) = True"
| "truthy (JBuiltin f) = True"

text \<open>
  The parts of the JavaScript platform the code calls and this development does not
  define: \<open>JSON.parse\<close> (its \<open>SyntaxError\<close> as the left summand), \<open>JSON.stringify\<close> with
  its indentation argument (\<open>0\<close> for the call without one), \<open>String\<close> on a number, and
  what a property access finds on the prototype chain of a value when the value has no
  own property of that name (\<open>JUndefined\<close> when there is none).
\<close>

record platform =
  JSON_parse :: "string \<Rightarrow> js_error + jsval"
  JSON_stringify :: "jsval \<Rightarrow> nat \<Rightarrow> string"
  Number_toString :: "rat \<Rightarrow> string"
  proto_get :: "jsval \<Rightarrow> string \<Rightarrow> jsval"

subsection \<open>Decimal numerals\<close>

definition digit10 :: "nat \<Rightarrow> char" where
  "digit10 d = ''0123456789'' ! d"

text \<open>The decimal text of a natural number, as a template literal prints a status
  code.\<close>

fun show_nat :: "nat \<Rightarrow> string" where
  "show_nat n = (if n < 10 then [digit10 n] else show_nat (n div 10) @ [digit10 (n mod 10)])"

declare show_nat.simps [simp del]

subsection \<open>Property access\<close>

definition is_digit :: "char \<Rightarrow> bool" where
  "is_digit c = (48 \<le> (of_char c :: nat) \<and> (of_char c :: nat) \<le> 57)"

text \<open>A property name that is an array index: a decimal numeral without a leading
  zero.\<close>

definition index_of_key :: "string \<Rightarrow> nat option" where
  "index_of_key k =
     (if k \<noteq> [] \<and> list_all is_digit k \<and> (length k = 1 \<or> hd k \<noteq> CHR ''0'')
      then Some (fold (\<lambda>c a. 10 * a + ((of_char c :: nat) - 48)) k 0)
      else None)"

text \<open>The own properties of a value: the entries of an object (a parsed object has
  each key once), the elements and the length of an array or a string.\<close>

fun own_property :: "jsval \<Rightarrow> string \<Rightarrow> jsval option" where
  "own_property (JObj kvs) k = map_of kvs k"
| "own_property (JArr xs) k =
     (if k = ''length'' then Some (JNum (of_nat (length xs)))
      else case index_of_key k of
             None \<Rightarrow> None
           | Some i \<Rightarrow> if i < length xs then Some (xs ! i) else None)"
| "own_property (JStr s) k =
     (if k = ''length'' then Some (JNum (of_nat (length s)))
      else case index_of_key k of
             None \<Rightarrow> None
           | Some i \<Rightarrow> if i < length s then Some (JStr [s ! i]) else None)"
| "own_property v k = None"

text \<open>\<open>v[k]\<close> on a value that is neither \<open>null\<close> nor \<open>undefined\<close>.\<close>

definition get_property :: "platform \<Rightarrow> jsval \<Rightarrow> string \<Rightarrow> jsval" where
  "get_property p v k = (case own_property v k of Some x \<Rightarrow> x | None \<Rightarrow> proto_get p v k)"

text \<open>\<open>v.k\<close>: a \<open>TypeError\<close> on \<open>null\<close> and \<open>undefined\<close>.\<close>

definition member :: "platform \<Rightarrow> jsval \<Rightarrow> string \<Rightarrow> js_error + jsval" where
  "member p v k =
     (case v of
        JUndefined \<Rightarrow> Inl (TypeError (''Cannot read properties of undefined (reading '' @ k @ '')''))
      | JNull \<Rightarrow> Inl (TypeError (''Cannot read properties of null (reading '' @ k @ '')''))
      | _ \<Rightarrow> Inr (get_property p v k))"

text \<open>\<open>v?.[k]\<close>: \<open>undefined\<close> on \<open>null\<close> and \<open>undefined\<close>.\<close>

definition optional_index :: "platform \<Rightarrow> jsval \<Rightarrow> string \<Rightarrow> jsval" where
  "optional_index p v k =
     (case v of JUndefined \<Rightarrow> JUndefined | JNull \<Rightarrow> JUndefined | _ \<Rightarrow> get_property p v k)"

section \<open>The backend: requests, responses and the log of calls\<close>

text \<open>
  A \<open>URL\<close> object is kept as the text given to its constructor and the search parameters
  set on it afterwards; its serialisation is the platform's. \<open>searchParams.set\<close> replaces
  the first entry of the name and removes the others, or appends.
\<close>

record url =
  href_input :: string
  searchParams :: "(string \<times> string) list"

definition new_URL :: "string \<Rightarrow> url" where
  "new_URL s = \<lparr>href_input = s, searchParams = []\<rparr>"

fun set_entry :: "string \<Rightarrow> string \<Rightarrow> (string \<times> string) list \<Rightarrow> (string \<times> string) list" where
  "set_entry k v [] = [(k, v)]"
| "set_entry k v (e # es) =
     (if fst e = k then (k, v) # filter (\<lambda>e'. \<not> fst e' = k) es else e # set_entry k v es)"

definition searchParams_set :: "string \<Rightarrow> string \<Rightarrow> url \<Rightarrow> url" where
  "searchParams_set k v u = u\<lparr>searchParams := set_entry k v (searchParams u)\<rparr>"

text \<open>The request handed to \<open>fetch\<close>: the URL and the headers object (\<open>None\<close> is a header
  whose value is \<open>undefined\<close>).\<close>

record request =
  req_url :: url
  req_headers :: "(string \<times> string option) list"

record fetch_response =
  status :: nat
  body_text :: string

text \<open>\<open>res.ok\<close>: the status is in the range 200 to 299.\<close>

definition ok :: "fetch_response \<Rightarrow> bool" where
  "ok r = (200 \<le> status r \<and> status r \<le> 299)"

text \<open>
  The world outside the process: the backend, which answers a request with a response or
  makes \<open>fetch\<close> reject, and the requests sent so far, in order.
\<close>

record world =
  backend :: "request \<Rightarrow> js_error + fetch_response"
  calls :: "request list"

definition fetch :: "request \<Rightarrow> world \<Rightarrow> (js_error + fetch_response) \<times> world" where
  "fetch rq w = (backend w rq, w\<lparr>calls := calls w @ [rq]\<rparr>)"

section \<open>The helper \<open>figma\<close>\<close>

text \<open>The URL the helper builds from its arguments (\<open>Object.entries\<close> gives the
  parameters in insertion order).\<close>

definition figma_url :: "string \<Rightarrow> (string \<times> string) list option \<Rightarrow> url" where
  "figma_url path params =
     (let u = new_URL (''https://api.figma.com/v1/'' @ path)
      in case params of
           None \<Rightarrow> u
         | Some ps \<Rightarrow> fold (\<lambda>(k, v). searchParams_set k v) ps u)"

text \<open>What the helper does with the response: an error with the status and the body on
  a status outside 200 to 299, the parsed body otherwise.\<close>

definition read_response :: "platform \<Rightarrow> fetch_response \<Rightarrow> js_error + jsval" where
  "read_response p res =
     (if \<not> ok res
      then Inl (Error (''Figma '' @ show_nat (status res) @ '': '' @ body_text res))
      else JSON_parse p (body_text res))"

text \<open>
  \<open>figma\<close> of \<open>src/unnamed/part_000\<close> (lines 14 to 30) and of the second handler of
  \<open>src/api/server.ts\<close> (lines 77 to 93), which are the same text. \<open>FIGMA_TOKEN\<close> is
  \<open>process.env.FIGMA_ACCESS_TOKEN\<close>: \<open>None\<close> when the variable is not set.
\<close>

definition figma ::
  "platform \<Rightarrow> string option \<Rightarrow> string \<Rightarrow> (string \<times> string) list option \<Rightarrow> world
     \<Rightarrow> (js_error + jsval) \<times> world" where
  "figma p FIGMA_TOKEN path params w =
     (case FIGMA_TOKEN of
        None \<Rightarrow> (Inl (Error ''FIGMA_ACCESS_TOKEN mangler i environment variables''), w)
      | Some tok \<Rightarrow>
          if tok = [] then (Inl (Error ''FIGMA_ACCESS_TOKEN mangler i environment variables''), w)
          else
            (case fetch \<lparr>req_url = figma_url path params,
                         req_headers = [(''X-Figma-Token'', Some tok)]\<rparr> w of
               (Inl e, w') \<Rightarrow> (Inl e, w')
             | (Inr res, w') \<Rightarrow> (read_response p res, w')))"

text \<open>
  \<open>figma\<close> of the first handler of \<open>src/api/server.ts\<close> (lines 12 to 18): the token is
  read with a non-null assertion, its absence is logged when the module loads, and the
  helper has no check of its own.
\<close>

definition figma_v1 ::
  "platform \<Rightarrow> string option \<Rightarrow> string \<Rightarrow> (string \<times> string) list option \<Rightarrow> world
     \<Rightarrow> (js_error + jsval) \<times> world" where
  "figma_v1 p FIGMA_TOKEN path params w =
     (case fetch \<lparr>req_url = figma_url path params,
                  req_headers = [(''X-Figma-Token'', FIGMA_TOKEN)]\<rparr> w of
        (Inl e, w') \<Rightarrow> (Inl e, w')
      | (Inr res, w') \<Rightarrow> (read_response p res, w'))"

section \<open>The tool handlers\<close>

text \<open>A tool's result: \<open>{ content: [{ type, text }] }\<close>.\<close>

record content_item =
  item_type :: string
  item_text :: jsval

record tool_result =
  content :: "content_item list"

subsection \<open>get-file\<close>

text \<open>The handler of \<open>src/unnamed/part_000\<close> (lines 80 to 83): the document is printed
  with an indentation of two.\<close>

definition get_file ::
  "platform \<Rightarrow> string option \<Rightarrow> string \<Rightarrow> world \<Rightarrow> (js_error + tool_result) \<times> world" where
  "get_file p FIGMA_TOKEN fileKey w =
     (case figma p FIGMA_TOKEN (''files/'' @ fileKey) None w of
        (Inl e, w') \<Rightarrow> (Inl e, w')
      | (Inr data, w') \<Rightarrow>
          (Inr \<lparr>content = [\<lparr>item_type = ''json'',
                              item_text = JStr (JSON_stringify p data 2)\<rparr>]\<rparr>, w'))"

text \<open>The handler of the second handler of \<open>src/api/server.ts\<close> (lines 119 to 122): the
  document is printed without indentation.\<close>

definition get_file_srv ::
  "platform \<Rightarrow> string option \<Rightarrow> string \<Rightarrow> world \<Rightarrow> (js_error + tool_result) \<times> world" where
  "get_file_srv p FIGMA_TOKEN fileKey w =
     (case figma p FIGMA_TOKEN (''files/'' @ fileKey) None w of
        (Inl e, w') \<Rightarrow> (Inl e, w')
      | (Inr data, w') \<Rightarrow>
          (Inr \<lparr>content = [\<lparr>item_type = ''json'',
                              item_text = JStr (JSON_stringify p data 0)\<rparr>]\<rparr>, w'))"

text \<open>The handler of the first handler of \<open>src/api/server.ts\<close> (lines 31 to 34), over the
  helper without the check.\<close>

definition get_file_v1 ::
  "platform \<Rightarrow> string option \<Rightarrow> string \<Rightarrow> world \<Rightarrow> (js_error + tool_result) \<times> world" where
  "get_file_v1 p FIGMA_TOKEN fileKey w =
     (case figma_v1 p FIGMA_TOKEN (''files/'' @ fileKey) None w of
        (Inl e, w') \<Rightarrow> (Inl e, w')
      | (Inr data, w') \<Rightarrow>
          (Inr \<lparr>content = [\<lparr>item_type = ''json'',
                              item_text = JStr (JSON_stringify p data 0)\<rparr>]\<rparr>, w'))"

subsection \<open>export-node\<close>

text \<open>
  The second half of the handler: \<open>data.images?.[nodeId]\<close>, the check \<open>if (!url)\<close> with
  the message of its error, and the result.
\<close>

definition image_url :: "platform \<Rightarrow> string \<Rightarrow> jsval \<Rightarrow> string \<Rightarrow> js_error + tool_result" where
  "image_url p message data nodeId =
     (case member p data ''images'' of
        Inl e \<Rightarrow> Inl e
      | Inr images \<Rightarrow>
          (let url = optional_index p images nodeId
           in if \<not> truthy url then Inl (Error message)
              else Inr \<lparr>content = [\<lparr>item_type = ''text'', item_text = url\<rparr>]\<rparr>))"

text \<open>The parameter object of the call: \<open>{ ids: nodeId, format, scale: String(scale) }\<close>.\<close>

definition export_params :: "platform \<Rightarrow> string \<Rightarrow> string \<Rightarrow> rat \<Rightarrow> (string \<times> string) list" where
  "export_params p nodeId format scale =
     [(''ids'', nodeId), (''format'', format), (''scale'', Number_toString p scale)]"

text \<open>The handler of \<open>src/unnamed/part_000\<close> (lines 98 to 107).\<close>

definition export_node ::
  "platform \<Rightarrow> string option \<Rightarrow> string \<Rightarrow> string \<Rightarrow> string \<Rightarrow> rat \<Rightarrow> world
     \<Rightarrow> (js_error + tool_result) \<times> world" where
  "export_node p FIGMA_TOKEN fileKey nodeId format scale w =
     (case figma p FIGMA_TOKEN (''images/'' @ fileKey)
             (Some (export_params p nodeId format scale)) w of
        (Inl e, w') \<Rightarrow> (Inl e, w')
      | (Inr data, w') \<Rightarrow> (image_url p ''Ingen billed-URL retur fra Figma'' data nodeId, w'))"

text \<open>The handler of the second handler of \<open>src/api/server.ts\<close> (lines 137 to 146): a
  longer message.\<close>

definition export_node_srv ::
  "platform \<Rightarrow> string option \<Rightarrow> string \<Rightarrow> string \<Rightarrow> string \<Rightarrow> rat \<Rightarrow> world
     \<Rightarrow> (js_error + tool_result) \<times> world" where
  "export_node_srv p FIGMA_TOKEN fileKey nodeId format scale w =
     (case figma p FIGMA_TOKEN (''images/'' @ fileKey)
             (Some (export_params p nodeId format scale)) w of
        (Inl e, w') \<Rightarrow> (Inl e, w')
      | (Inr data, w') \<Rightarrow>
          (image_url p ''Ingen billed-URL retur fra Figma (tjek nodeId/fileKey)'' data nodeId, w'))"

text \<open>The handler of the first handler of \<open>src/api/server.ts\<close> (lines 49 to 54).\<close>

definition export_node_v1 ::
  "platform \<Rightarrow> string option \<Rightarrow> string \<Rightarrow> string \<Rightarrow> string \<Rightarrow> rat \<Rightarrow> world
     \<Rightarrow> (js_error + tool_result) \<times> world" where
  "export_node_v1 p FIGMA_TOKEN fileKey nodeId format scale w =
     (case figma_v1 p FIGMA_TOKEN (''images/'' @ fileKey)
             (Some (export_params p nodeId format scale)) w of
        (Inl e, w') \<Rightarrow> (Inl e, w')
      | (Inr data, w') \<Rightarrow> (image_url p ''Ingen billed-URL retur fra Figma'' data nodeId, w'))"

section \<open>A stub platform and stub backends\<close>

text \<open>
  Test doubles, for running the model on concrete inputs: the members of
  \<open>Object.prototype\<close>, a JSON codec that knows the documents below, and backends that
  answer every request with one fixed response.
\<close>

definition Object_prototype :: "jsval \<Rightarrow> string \<Rightarrow> jsval" where
  "Object_prototype v k =
     (if k \<in> set [''constructor'', ''hasOwnProperty'', ''isPrototypeOf'',
                      ''propertyIsEnumerable'', ''toLocaleString'', ''toString'', ''valueOf'',
                      ''__proto__'', ''__defineGetter__'', ''__defineSetter__'',
                      ''__lookupGetter__'', ''__lookupSetter__'']
      then JBuiltin k else JUndefined)"

definition file_doc :: jsval where
  "file_doc = JObj [(''name'', JStr ''Landing''), (''version'', JStr ''7'')]"

definition file_doc_compact :: string where
  \<open>file_doc_compact = ''{"name":"Landing","version":"7"}''\<close>

definition file_doc_pretty :: string where
  \<open>file_doc_pretty = ''{\<newline>  "name": "Landing",\<newline>  "version": "7"\<newline>}''\<close>

definition images_doc :: jsval where
  "images_doc = JObj [(''err'', JNull), (''images'', JObj [(''1:2'', JStr ''https://cdn.example/1-2.png'')])]"

definition images_doc_text :: string where
  \<open>images_doc_text = ''{"err":null,"images":{"1:2":"https://cdn.example/1-2.png"}}''\<close>

definition null_image_doc :: jsval where
  "null_image_doc = JObj [(''err'', JNull), (''images'', JObj [(''1:2'', JNull)])]"

definition null_image_doc_text :: string where
  \<open>null_image_doc_text = ''{"err":null,"images":{"1:2":null}}''\<close>

definition no_image_doc :: jsval where
  "no_image_doc = JObj [(''err'', JNull), (''images'', JObj [])]"

definition no_image_doc_text :: string where
  \<open>no_image_doc_text = ''{"err":null,"images":{}}''\<close>

definition stub_parse :: "string \<Rightarrow> js_error + jsval" where
  "stub_parse s =
     (if s = file_doc_compact \<or> s = file_doc_pretty then Inr file_doc
      else if s = images_doc_text then Inr images_doc
      else if s = null_image_doc_text then Inr null_image_doc
      else if s = no_image_doc_text then Inr no_image_doc
      else Inl (SyntaxError ''Unexpected token''))"

definition stub_stringify :: "jsval \<Rightarrow> nat \<Rightarrow> string" where
  "stub_stringify v gap =
     (if v = file_doc then (if gap = 0 then file_doc_compact else file_doc_pretty)
      else if v = images_doc then images_doc_text
      else if v = null_image_doc then null_image_doc_text
      else if v = no_image_doc then no_image_doc_text
      else ''null'')"

definition stub_number :: "rat \<Rightarrow> string" where
  "stub_number r =
     (if r = 1 then ''1'' else if r = 2 then ''2'' else if r = 4 then ''4''
      else if r = 1 / 2 then ''0.5'' else ''0.1'')"

definition stub_platform :: platform where
  "stub_platform =
     \<lparr>JSON_parse = stub_parse, JSON_stringify = stub_stringify,
      Number_toString = stub_number, proto_get = Object_prototype\<rparr>"

text \<open>A backend that answers every request with the given status and body, and no call
  made yet.\<close>

definition stub_world :: "nat \<Rightarrow> string \<Rightarrow> world" where
  "stub_world st body = \<lparr>backend = (\<lambda>rq. Inr \<lparr>status = st, body_text = body\<rparr>), calls = []\<rparr>"

section \<open>The HTTP handler\<close>

text \<open>The request as the handler reads it: \<open>req.method\<close> and \<open>req.body\<close> (a string, a
  parsed value, or \<open>undefined\<close>).\<close>

record http_request =
  http_method :: string
  req_body :: jsval

text \<open>The response: \<open>res.end()\<close> sends no body, \<open>res.json(x)\<close> the value \<open>x\<close> as JSON,
  \<open>res.send(s)\<close> the string \<open>s\<close>.\<close>

datatype body = NoBody | JsonBody jsval | TextBody string

record http_response =
  statusCode :: nat
  res_headers :: "(string \<times> string) list"
  res_body :: body

text \<open>\<open>res.setHeader\<close> replaces the header of that name.\<close>

fun setHeader :: "string \<Rightarrow> string \<Rightarrow> (string \<times> string) list \<Rightarrow> (string \<times> string) list" where
  "setHeader k v [] = [(k, v)]"
| "setHeader k v (h # hs) = (if fst h = k then (k, v) # hs else h # setHeader k v hs)"

definition cors :: "(string \<times> string) list \<Rightarrow> (string \<times> string) list" where
  "cors hs =
     setHeader ''Access-Control-Allow-Headers'' ''Content-Type''
       (setHeader ''Access-Control-Allow-Methods'' ''POST, GET, OPTIONS''
         (setHeader ''Access-Control-Allow-Origin'' ''*'' hs))"

subsection \<open>The event stream of a GET request\<close>

text \<open>
  The state of one streaming connection: the headers, the chunks written with the time
  (in milliseconds since the request) of each, the interval timer \<open>keepAlive\<close> (its period
  and the time it is next due; \<open>None\<close> once cleared), whether the listener for the
  request's \<open>close\<close> event is registered, whether the response is ended, and the clock.
\<close>

record sse =
  sse_headers :: "(string \<times> string) list"
  written :: "(nat \<times> string) list"
  keepAlive :: "(nat \<times> nat) option"
  close_listener :: bool
  ended :: bool
  now :: nat

definition initialized_event :: string where
  \<open>initialized_event =
     ''data: {"jsonrpc":"2.0","method":"initialized","params":{}}\<newline>\<newline>''\<close>

definition ping_event :: string where
  \<open>ping_event = ''data: {"jsonrpc":"2.0","method":"ping"}\<newline>\<newline>''\<close>

text \<open>The GET branch (lines 39 to 62 of \<open>src/unnamed/part_000\<close>): five headers, the first
  write, \<open>setInterval\<close> with a period of 30000 milliseconds, and the listener.\<close>

definition sse_open :: "(string \<times> string) list \<Rightarrow> sse" where
  "sse_open hs =
     \<lparr>sse_headers =
        setHeader ''Access-Control-Allow-Headers'' ''Cache-Control''
          (setHeader ''Access-Control-Allow-Origin'' ''*''
            (setHeader ''Connection'' ''keep-alive''
              (setHeader ''Cache-Control'' ''no-cache''
                (setHeader ''Content-Type'' ''text/event-stream'' hs)))),
      written = [(0, initialized_event)],
      keepAlive = Some (30000, 30000),
      close_listener = True,
      ended = False,
      now = 0\<rparr>"

text \<open>The callback of the timer: \<open>res.write\<close> of the ping.\<close>

definition keepAlive_callback :: "sse \<Rightarrow> sse" where
  "keepAlive_callback s = s\<lparr>written := written s @ [(now s, ping_event)]\<rparr>"

text \<open>One millisecond passes: the event loop runs the callback of an interval timer that
  is due, and sets it due one period later.\<close>

definition tick :: "sse \<Rightarrow> sse" where
  "tick s =
     (let s' = s\<lparr>now := now s + 1\<rparr>
      in case keepAlive s' of
           None \<Rightarrow> s'
         | Some (period, due) \<Rightarrow>
             if now s' = due then keepAlive_callback (s'\<lparr>keepAlive := Some (period, due + period)\<rparr>)
             else s')"

fun elapse :: "nat \<Rightarrow> sse \<Rightarrow> sse" where
  "elapse 0 s = s"
| "elapse (Suc n) s = tick (elapse n s)"

text \<open>The client disconnects: the request emits \<open>close\<close> and the registered listener
  runs \<open>clearInterval(keepAlive)\<close> and \<open>res.end()\<close>.\<close>

definition client_close :: "sse \<Rightarrow> sse" where
  "client_close s = (if close_listener s then s\<lparr>keepAlive := None, ended := True\<rparr> else s)"

subsection \<open>The handler\<close>

text \<open>What a call of the handler leaves: a response sent, an open event stream, or an
  error thrown out of the handler with no response written.\<close>

datatype outcome = Sent http_response | Stream sse | Raised js_error

fun err_name :: "js_error \<Rightarrow> string" where
  "err_name (Error m) = ''Error''"
| "err_name (TypeError m) = ''TypeError''"
| "err_name (SyntaxError m) = ''SyntaxError''"

fun err_message :: "js_error \<Rightarrow> string" where
  "err_message (Error m) = m"
| "err_message (TypeError m) = m"
| "err_message (SyntaxError m) = m"

text \<open>\<open>String(err?.message || err)\<close>: the message, or for an empty message the string
  form of the error, which is then its name.\<close>

definition error_text :: "js_error \<Rightarrow> string" where
  "error_text e = (if err_message e \<noteq> [] then err_message e else err_name e)"

text \<open>\<open>!!FIGMA_TOKEN\<close>: the variable is set and not the empty string.\<close>

definition token_present :: "string option \<Rightarrow> bool" where
  "token_present t = (case t of None \<Rightarrow> False | Some tok \<Rightarrow> tok \<noteq> [])"

text \<open>\<open>typeof req.body === 'string' ? JSON.parse(req.body) : req.body\<close>.\<close>

definition decode_body :: "platform \<Rightarrow> jsval \<Rightarrow> js_error + jsval" where
  "decode_body p b = (case b of JStr s \<Rightarrow> JSON_parse p s | _ \<Rightarrow> Inr b)"

text \<open>
  The handler of \<open>src/unnamed/part_000\<close> (lines 32 to 133). \<open>handleJSON\<close> is the method of
  the SDK's server on which the two tools are registered: it takes the decoded body and
  returns the reply or throws.
\<close>

definition handler ::
  "platform \<Rightarrow> string option \<Rightarrow> (jsval \<Rightarrow> world \<Rightarrow> (js_error + jsval) \<times> world)
     \<Rightarrow> http_request \<Rightarrow> world \<Rightarrow> outcome \<times> world" where
  "handler p FIGMA_TOKEN handleJSON req w =
     (let hs = cors []
      in if http_method req = ''OPTIONS'' then
           (Sent \<lparr>statusCode = 200, res_headers = hs, res_body = NoBody\<rparr>, w)
         else if http_method req = ''GET'' then (Stream (sse_open hs), w)
         else if http_method req = ''POST'' then
           (case decode_body p (req_body req) of
              Inl e \<Rightarrow> (Raised e, w)
            | Inr b \<Rightarrow>
                if \<not> truthy b then
                  (Sent \<lparr>statusCode = 400, res_headers = hs,
                         res_body = JsonBody (JObj [(''error'', JStr ''Missing JSON body'')])\<rparr>, w)
                else
                  (case handleJSON b w of
                     (Inr reply, w') \<Rightarrow>
                       (Sent \<lparr>statusCode = 200,
                              res_headers = setHeader ''Content-Type'' ''application/json'' hs,
                              res_body = JsonBody reply\<rparr>, w')
                   | (Inl err, w') \<Rightarrow>
                       (Sent \<lparr>statusCode = 500, res_headers = hs,
                              res_body = JsonBody (JObj [(''error'', JStr (error_text err))])\<rparr>, w')))
         else
           (Sent \<lparr>statusCode = 200, res_headers = hs,
                  res_body = JsonBody (JObj
                    [(''ok'', JBool True),
                     (''server'', JStr ''figma-mcp''),
                     (''env'', JBool (token_present FIGMA_TOKEN)),
                     (''methods'', JArr [JStr ''GET (SSE)'', JStr ''POST (JSON-RPC)''])])\<rparr>, w))"

text \<open>
  The second handler of \<open>src/api/server.ts\<close> (lines 95 to 162): GET is a health check, and
  every method but OPTIONS and GET runs the tool pipeline.
\<close>

definition handler_srv ::
  "platform \<Rightarrow> string option \<Rightarrow> (jsval \<Rightarrow> world \<Rightarrow> (js_error + jsval) \<times> world)
     \<Rightarrow> http_request \<Rightarrow> world \<Rightarrow> outcome \<times> world" where
  "handler_srv p FIGMA_TOKEN handleJSON req w =
     (let hs = cors []
      in if http_method req = ''OPTIONS'' then
           (Sent \<lparr>statusCode = 200, res_headers = hs, res_body = NoBody\<rparr>, w)
         else if http_method req = ''GET'' then
           (Sent \<lparr>statusCode = 200, res_headers = hs,
                  res_body = JsonBody (JObj
                    [(''ok'', JBool True),
                     (''server'', JStr ''figma-mcp''),
                     (''env'', JBool (token_present FIGMA_TOKEN))])\<rparr>, w)
         else
           (case decode_body p (req_body req) of
              Inl e \<Rightarrow> (Raised e, w)
            | Inr b \<Rightarrow>
                if \<not> truthy b then
                  (Sent \<lparr>statusCode = 400, res_headers = hs,
                         res_body = JsonBody (JObj
                           [(''error'', JStr ''Missing JSON body (MCP envelope)'')])\<rparr>, w)
                else
                  (case handleJSON b w of
                     (Inr reply, w') \<Rightarrow>
                       (Sent \<lparr>statusCode = 200,
                              res_headers = setHeader ''Content-Type'' ''application/json'' hs,
                              res_body = TextBody (JSON_stringify p reply 0)\<rparr>, w')
                   | (Inl err, w') \<Rightarrow>
                       (Sent \<lparr>statusCode = 500, res_headers = hs,
                              res_body = JsonBody (JObj [(''error'', JStr (error_text err))])\<rparr>, w'))))"

section \<open>The argument schemas\<close>

text \<open>
  The two \<open>inputSchema\<close> objects of the source, read as the schema library parses a
  value with them: every field is checked, the issues of all fields are collected in the
  order of the fields, each with the path of its field, and a field that is \<open>undefined\<close>
  takes its default when the schema has one. A field the object does not have is
  \<open>undefined\<close>.
\<close>

datatype zod_code = invalid_type | invalid_enum_value | too_small | too_big

datatype zod_issue = Issue (issue_code: zod_code) (issue_path: "string list")

definition field :: "(string \<times> jsval) list \<Rightarrow> string \<Rightarrow> jsval" where
  "field kvs k = (case map_of kvs k of None \<Rightarrow> JUndefined | Some v \<Rightarrow> v)"

text \<open>\<open>z.string()\<close>.\<close>

definition z_string :: "string list \<Rightarrow> jsval \<Rightarrow> zod_issue list + string" where
  "z_string path v = (case v of JStr s \<Rightarrow> Inr s | _ \<Rightarrow> Inl [Issue invalid_type path])"

text \<open>\<open>z.enum(['png', 'svg']).default('png')\<close>.\<close>

definition z_format :: "string list \<Rightarrow> jsval \<Rightarrow> zod_issue list + string" where
  "z_format path v =
     (case v of
        JUndefined \<Rightarrow> Inr ''png''
      | JStr s \<Rightarrow> if s = ''png'' \<or> s = ''svg'' then Inr s else Inl [Issue invalid_enum_value path]
      | _ \<Rightarrow> Inl [Issue invalid_type path])"

text \<open>\<open>z.number().min(0.1).max(4).default(1)\<close>. The bound \<open>0.1\<close> is the double nearest to
  one tenth, which is the least double that is not below one tenth: on the value of a
  double the comparison with it and with \<open>1 / 10\<close> agree.\<close>

definition z_scale :: "string list \<Rightarrow> jsval \<Rightarrow> zod_issue list + rat" where
  "z_scale path v =
     (case v of
        JUndefined \<Rightarrow> Inr 1
      | JNum n \<Rightarrow>
          if n < 1 / 10 then Inl [Issue too_small path]
          else if 4 < n then Inl [Issue too_big path]
          else Inr n
      | _ \<Rightarrow> Inl [Issue invalid_type path])"

definition issues :: "zod_issue list + 'a \<Rightarrow> zod_issue list" where
  "issues r = (case r of Inl is \<Rightarrow> is | Inr x \<Rightarrow> [])"

text \<open>The schema of get-file: \<open>z.object({ fileKey: z.string() })\<close>.\<close>

definition get_file_schema :: "jsval \<Rightarrow> zod_issue list + string" where
  "get_file_schema args =
     (case args of
        JObj kvs \<Rightarrow> z_string [''fileKey''] (field kvs ''fileKey'')
      | _ \<Rightarrow> Inl [Issue invalid_type []])"

record export_node_args =
  fileKey :: string
  nodeId :: string
  format :: string
  scale :: rat

text \<open>The schema of export-node (lines 91 to 96 of \<open>src/unnamed/part_000\<close>, lines 130 to
  135 of \<open>src/api/server.ts\<close>).\<close>

definition export_node_schema :: "jsval \<Rightarrow> zod_issue list + export_node_args" where
  "export_node_schema args =
     (case args of
        JObj kvs \<Rightarrow>
          (let k = z_string [''fileKey''] (field kvs ''fileKey'');
               n = z_string [''nodeId''] (field kvs ''nodeId'');
               f = z_format [''format''] (field kvs ''format'');
               s = z_scale [''scale''] (field kvs ''scale'')
           in case (k, n, f, s) of
                (Inr k', Inr n', Inr f', Inr s') \<Rightarrow>
                  Inr \<lparr>fileKey = k', nodeId = n', format = f', scale = s'\<rparr>
              | _ \<Rightarrow> Inl (issues k @ issues n @ issues f @ issues s))
      | _ \<Rightarrow> Inl [Issue invalid_type []])"

section \<open>The invoker\<close>

text \<open>A decoded tool call, and the ways an invocation fails.\<close>

record tool_invocation =
  toolName :: string
  arguments :: jsval

datatype invoke_error =
    UnknownTool string
  | ValidationError "zod_issue list"
  | HandlerError js_error

text \<open>Modelled from the spec: the invoker behind \<open>server.tool\<close> and \<open>server.handleJSON\<close>,
  which is the SDK's and not in the repository. Section 4.4 of the specification: it finds
  the tool by name, or fails with an unknown tool; it applies the tool's schema to the
  arguments, and a validation failure comes strictly before any backend call; it calls
  the handler with the validated and defaulted arguments, and hands its result or error
  on unchanged. The tools are the two registered in \<open>src/unnamed/part_000\<close>.\<close>

definition invoke ::
  "platform \<Rightarrow> string option \<Rightarrow> tool_invocation \<Rightarrow> world \<Rightarrow> (invoke_error + tool_result) \<times> world" where
  "invoke p FIGMA_TOKEN c w =
     (if toolName c = ''get-file'' then
        (case get_file_schema (arguments c) of
           Inl is \<Rightarrow> (Inl (ValidationError is), w)
         | Inr k \<Rightarrow>
             (case get_file p FIGMA_TOKEN k w of
                (Inl e, w') \<Rightarrow> (Inl (HandlerError e), w')
              | (Inr r, w') \<Rightarrow> (Inr r, w')))
      else if toolName c = ''export-node'' then
        (case export_node_schema (arguments c) of
           Inl is \<Rightarrow> (Inl (ValidationError is), w)
         | Inr a \<Rightarrow>
             (case export_node p FIGMA_TOKEN (fileKey a) (nodeId a) (format a) (scale a) w of
                (Inl e, w') \<Rightarrow> (Inl (HandlerError e), w')
              | (Inr r, w') \<Rightarrow> (Inr r, w')))
      else (Inl (UnknownTool (toolName c)), w))"

section \<open>Properties of the helper \<open>figma\<close>\<close>

subsection \<open>An absent credential\<close>

text \<open>The helper with the check, and the two handlers over it, fail with the
  configuration error and leave the world as it was: no request is sent.\<close>

lemma figma_absent_token:
  "\<not> token_present t \<Longrightarrow>
   figma p t path params w = (Inl (Error ''FIGMA_ACCESS_TOKEN mangler i environment variables''), w)"
  by (auto simp: figma_def token_present_def split: option.splits)

lemma get_file_absent_token:
  "\<not> token_present t \<Longrightarrow>
   get_file p t k w = (Inl (Error ''FIGMA_ACCESS_TOKEN mangler i environment variables''), w) \<and>
   get_file_srv p t k w = (Inl (Error ''FIGMA_ACCESS_TOKEN mangler i environment variables''), w)"
  by (simp add: get_file_def get_file_srv_def figma_absent_token)

lemma export_node_absent_token:
  "\<not> token_present t \<Longrightarrow>
   export_node p t k n f s w = (Inl (Error ''FIGMA_ACCESS_TOKEN mangler i environment variables''), w) \<and>
   export_node_srv p t k n f s w = (Inl (Error ''FIGMA_ACCESS_TOKEN mangler i environment variables''), w)"
  by (simp add: export_node_def export_node_srv_def figma_absent_token)

lemma show_nat_403: "show_nat 403 = ''403''"
  by (simp add: show_nat.simps digit10_def)

text \<open>
  C1: every tool invocation issued while the access credential is absent fails with a
  configuration error, and no network call to the backend is attempted. The handlers of
  \<open>src/unnamed/part_000\<close> and of the second handler of \<open>src/api/server.ts\<close> do so (the
  lemmas above). The tools of the first handler of \<open>src/api/server.ts\<close> do not: with the
  variable not set, a get-file and an export-node invocation each send one request, with
  an \<open>undefined\<close> token header, and fail with the error of the backend's answer.
\<close>

theorem tool_v1_without_token_reaches_backend:
  "get_file_v1 stub_platform None ''abc'' (stub_world 403 ''Invalid token'') =
     (Inl (Error ''Figma 403: Invalid token''),
      (stub_world 403 ''Invalid token'')\<lparr>calls :=
         [\<lparr>req_url = \<lparr>href_input = ''https://api.figma.com/v1/files/abc'', searchParams = []\<rparr>,
           req_headers = [(''X-Figma-Token'', None)]\<rparr>]\<rparr>) \<and>
   export_node_v1 stub_platform None ''abc'' ''1:2'' ''png'' 1 (stub_world 403 ''Invalid token'') =
     (Inl (Error ''Figma 403: Invalid token''),
      (stub_world 403 ''Invalid token'')\<lparr>calls :=
         [\<lparr>req_url = \<lparr>href_input = ''https://api.figma.com/v1/images/abc'',
                       searchParams = [(''ids'', ''1:2''), (''format'', ''png''), (''scale'', ''1'')]\<rparr>,
           req_headers = [(''X-Figma-Token'', None)]\<rparr>]\<rparr>)"
  by (simp add: get_file_v1_def export_node_v1_def figma_v1_def fetch_def read_response_def
      ok_def figma_url_def new_URL_def stub_world_def show_nat_403 export_params_def
      stub_platform_def stub_number_def searchParams_set_def)

subsection \<open>A response outside 200 to 299\<close>

text \<open>
  C7: a backend call that receives a response whose status is not in 200 to 299 fails
  with an error whose message carries the status code and the text of the body, and the
  call is not retried: the log of requests grows by this one request.
\<close>

theorem figma_non_2xx:
  assumes "tok \<noteq> []"
    and "backend w \<lparr>req_url = figma_url path params, req_headers = [(''X-Figma-Token'', Some tok)]\<rparr> = Inr res"
    and "\<not> ok res"
  shows "figma p (Some tok) path params w =
           (Inl (Error (''Figma '' @ show_nat (status res) @ '': '' @ body_text res)),
            w\<lparr>calls := calls w @ [\<lparr>req_url = figma_url path params,
                                   req_headers = [(''X-Figma-Token'', Some tok)]\<rparr>]\<rparr>)"
  using assms by (simp add: figma_def fetch_def read_response_def)

text \<open>The backend answers 404 with the body \<open>Not found\<close>.\<close>

theorem figma_non_2xx_witness:
  "''t0k3n'' \<noteq> [] \<and>
   backend (stub_world 404 ''Not found'')
     \<lparr>req_url = figma_url ''files/abc'' None, req_headers = [(''X-Figma-Token'', Some ''t0k3n'')]\<rparr>
     = Inr \<lparr>status = 404, body_text = ''Not found''\<rparr> \<and>
   \<not> ok \<lparr>status = 404, body_text = ''Not found''\<rparr> \<and>
   figma stub_platform (Some ''t0k3n'') ''files/abc'' None (stub_world 404 ''Not found'') =
     (Inl (Error ''Figma 404: Not found''),
      (stub_world 404 ''Not found'')\<lparr>calls :=
         [\<lparr>req_url = \<lparr>href_input = ''https://api.figma.com/v1/files/abc'', searchParams = []\<rparr>,
           req_headers = [(''X-Figma-Token'', Some ''t0k3n'')]\<rparr>]\<rparr>)"
proof -
  have a: "''t0k3n'' \<noteq> []" by simp
  have b: "backend (stub_world 404 ''Not found'')
     \<lparr>req_url = figma_url ''files/abc'' None, req_headers = [(''X-Figma-Token'', Some ''t0k3n'')]\<rparr>
     = Inr \<lparr>status = 404, body_text = ''Not found''\<rparr>"
    by (simp add: stub_world_def)
  have c: "\<not> ok \<lparr>status = 404, body_text = ''Not found''\<rparr>" by (simp add: ok_def)
  have d: "show_nat 404 = ''404''" by (simp add: show_nat.simps digit10_def)
  show ?thesis
    using figma_non_2xx [OF a b c, of stub_platform] a b c d
    by (simp add: figma_url_def new_URL_def stub_world_def)
qed

subsection \<open>The URL and the token\<close>









section \<open>Properties of the tool handlers\<close>

subsection \<open>The helper on a response in 200 to 299\<close>

lemma figma_ok:
  assumes "tok \<noteq> []"
    and "backend w \<lparr>req_url = figma_url path params, req_headers = [(''X-Figma-Token'', Some tok)]\<rparr> = Inr res"
    and "ok res"
  shows "figma p (Some tok) path params w =
           (JSON_parse p (body_text res),
            w\<lparr>calls := calls w @ [\<lparr>req_url = figma_url path params,
                                   req_headers = [(''X-Figma-Token'', Some tok)]\<rparr>]\<rparr>)"
  using assms by (simp add: figma_def fetch_def read_response_def)


text \<open>The stub platform on the stub documents.\<close>

lemma figma_stub_200:
  "tok \<noteq> [] \<Longrightarrow>
   figma stub_platform (Some tok) path params (stub_world 200 body) =
     (stub_parse body,
      (stub_world 200 body)\<lparr>calls := [\<lparr>req_url = figma_url path params,
                                       req_headers = [(''X-Figma-Token'', Some tok)]\<rparr>]\<rparr>)"
  by (simp add: figma_def fetch_def read_response_def ok_def stub_world_def stub_platform_def)

lemma stub_parse_images: "stub_parse images_doc_text = Inr images_doc"
  by (simp add: stub_parse_def images_doc_text_def file_doc_compact_def file_doc_pretty_def)

lemma stub_parse_null_image: "stub_parse null_image_doc_text = Inr null_image_doc"
  by (simp add: stub_parse_def images_doc_text_def file_doc_compact_def file_doc_pretty_def
      null_image_doc_text_def)

lemma stub_parse_no_image: "stub_parse no_image_doc_text = Inr no_image_doc"
  by (simp add: stub_parse_def images_doc_text_def file_doc_compact_def file_doc_pretty_def
      null_image_doc_text_def no_image_doc_text_def)


lemma stub_parse_file_doc:
  "JSON_parse stub_platform file_doc_compact = Inr file_doc"
  "JSON_parse stub_platform file_doc_pretty = Inr file_doc"
  by (simp_all add: stub_platform_def stub_parse_def)

lemma member_images_doc:
  "member stub_platform images_doc ''images'' = Inr (JObj [(''1:2'', JStr ''https://cdn.example/1-2.png'')])"
  by (simp add: member_def images_doc_def get_property_def)

lemma member_null_image_doc:
  "member stub_platform null_image_doc ''images'' = Inr (JObj [(''1:2'', JNull)])"
  by (simp add: member_def null_image_doc_def get_property_def)

lemma member_no_image_doc:
  "member stub_platform no_image_doc ''images'' = Inr (JObj [])"
  by (simp add: member_def no_image_doc_def get_property_def)

subsection \<open>get-file\<close>



text \<open>
  C9: two get-file invocations with the same file key, against a backend that returns the
  same document both times (whatever else differs: the text of the two bodies, the
  requests sent before), have the same content payload.
\<close>

theorem get_file_same_document_same_payload:
  assumes "tok \<noteq> []"
    and "backend w1 \<lparr>req_url = figma_url (''files/'' @ k) None,
                      req_headers = [(''X-Figma-Token'', Some tok)]\<rparr> = Inr r1"
    and "backend w2 \<lparr>req_url = figma_url (''files/'' @ k) None,
                      req_headers = [(''X-Figma-Token'', Some tok)]\<rparr> = Inr r2"
    and "ok r1" and "ok r2"
    and "JSON_parse p (body_text r1) = Inr doc"
    and "JSON_parse p (body_text r2) = Inr doc"
  shows "fst (get_file p (Some tok) k w1) =
           Inr \<lparr>content = [\<lparr>item_type = ''json'', item_text = JStr (JSON_stringify p doc 2)\<rparr>]\<rparr> \<and>
         fst (get_file p (Some tok) k w2) = fst (get_file p (Some tok) k w1) \<and>
         fst (get_file_srv p (Some tok) k w1) =
           Inr \<lparr>content = [\<lparr>item_type = ''json'', item_text = JStr (JSON_stringify p doc 0)\<rparr>]\<rparr> \<and>
         fst (get_file_srv p (Some tok) k w2) = fst (get_file_srv p (Some tok) k w1)"
  using assms by (simp add: get_file_def get_file_srv_def figma_ok)

text \<open>The second invocation runs in the world the first one left.\<close>

theorem get_file_same_document_same_payload_witness:
  "fst (get_file stub_platform (Some ''t0k3n'') ''abc'' (stub_world 200 file_doc_compact)) =
     Inr \<lparr>content = [\<lparr>item_type = ''json'', item_text = JStr file_doc_pretty\<rparr>]\<rparr> \<and>
   fst (get_file stub_platform (Some ''t0k3n'') ''abc''
          (snd (get_file stub_platform (Some ''t0k3n'') ''abc'' (stub_world 200 file_doc_compact)))) =
     fst (get_file stub_platform (Some ''t0k3n'') ''abc'' (stub_world 200 file_doc_compact)) \<and>
   calls (snd (get_file stub_platform (Some ''t0k3n'') ''abc'' (stub_world 200 file_doc_compact))) =
     [\<lparr>req_url = \<lparr>href_input = ''https://api.figma.com/v1/files/abc'', searchParams = []\<rparr>,
       req_headers = [(''X-Figma-Token'', Some ''t0k3n'')]\<rparr>]"
proof -
  let ?w1 = "stub_world 200 file_doc_compact"
  let ?rq = "\<lparr>req_url = figma_url (''files/'' @ ''abc'') None,
              req_headers = [(''X-Figma-Token'', Some ''t0k3n'')]\<rparr>"
  let ?w2 = "?w1\<lparr>calls := calls ?w1 @ [?rq]\<rparr>"
  let ?r = "\<lparr>status = 200, body_text = file_doc_compact\<rparr>"
  have t: "''t0k3n'' \<noteq> []" by simp
  have b1: "backend ?w1 ?rq = Inr ?r" by (simp add: stub_world_def)
  have b2: "backend ?w2 ?rq = Inr ?r" by (simp add: stub_world_def)
  have o: "ok ?r" by (simp add: ok_def)
  have d: "JSON_parse stub_platform (body_text ?r) = Inr file_doc"
    by (simp add: stub_parse_file_doc)
  have s: "JSON_stringify stub_platform file_doc 2 = file_doc_pretty"
    by (simp add: stub_platform_def stub_stringify_def)
  have w2: "snd (get_file stub_platform (Some ''t0k3n'') ''abc'' ?w1) = ?w2"
    using figma_ok [OF t b1 o, of stub_platform] d by (simp add: get_file_def)
  have c: "calls ?w2 = [\<lparr>req_url = \<lparr>href_input = ''https://api.figma.com/v1/files/abc'', searchParams = []\<rparr>,
       req_headers = [(''X-Figma-Token'', Some ''t0k3n'')]\<rparr>]"
    by (simp add: stub_world_def figma_url_def new_URL_def)
  show ?thesis
    using get_file_same_document_same_payload [OF t b1 b2 o o d d] s
    unfolding w2 c by simp
qed

subsection \<open>export-node\<close>

lemma image_url_cases:
  assumes "member p data ''images'' = Inr images"
  shows "image_url p msg data nid =
           (if truthy (optional_index p images nid)
            then Inr \<lparr>content = [\<lparr>item_type = ''text'', item_text = optional_index p images nid\<rparr>]\<rparr>
            else Inl (Error msg))"
  using assms by (simp add: image_url_def Let_def)

text \<open>
  C3, as amended: for an export-node invocation whose backend call returns a document with
  the member \<open>images\<close>: if \<open>images\<close> is an object whose entry for the node id is a truthy
  value, the invocation succeeds with exactly one content item, of kind \<open>text\<close>, whose
  payload is that value; if the entry is a falsy value (\<open>null\<close>, the empty string), or
  there is no entry and the name is not one the object inherits, or \<open>images\<close> is \<open>null\<close> or
  missing, the invocation fails with the error that no image URL was returned, and has no
  result.
\<close>

theorem export_node_image_entry:
  assumes "figma p FIGMA_TOKEN (''images/'' @ k) (Some (export_params p nid f s)) w = (Inr data, w')"
    and "member p data ''images'' = Inr images"
  shows "(images = JObj m \<and> map_of m nid = Some v \<and> truthy v \<longrightarrow>
            export_node p FIGMA_TOKEN k nid f s w =
              (Inr \<lparr>content = [\<lparr>item_type = ''text'', item_text = v\<rparr>]\<rparr>, w') \<and>
            export_node_srv p FIGMA_TOKEN k nid f s w =
              (Inr \<lparr>content = [\<lparr>item_type = ''text'', item_text = v\<rparr>]\<rparr>, w')) \<and>
         ((images = JObj m \<and> map_of m nid = Some v \<and> \<not> truthy v) \<or>
          (images = JObj m \<and> map_of m nid = None \<and> proto_get p images nid = JUndefined) \<or>
          images = JUndefined \<or> images = JNull \<longrightarrow>
            export_node p FIGMA_TOKEN k nid f s w =
              (Inl (Error ''Ingen billed-URL retur fra Figma''), w') \<and>
            export_node_srv p FIGMA_TOKEN k nid f s w =
              (Inl (Error ''Ingen billed-URL retur fra Figma (tjek nodeId/fileKey)''), w'))"
  using assms
  by (auto simp: export_node_def export_node_srv_def image_url_cases optional_index_def
      get_property_def)

text \<open>A backend that returns a URL for the node, and one that returns an empty image
  map.\<close>

theorem export_node_image_entry_witness:
  "export_node stub_platform (Some ''t0k3n'') ''abc'' ''1:2'' ''png'' 1 (stub_world 200 images_doc_text) =
     (Inr \<lparr>content = [\<lparr>item_type = ''text'', item_text = JStr ''https://cdn.example/1-2.png''\<rparr>]\<rparr>,
      (stub_world 200 images_doc_text)\<lparr>calls :=
         [\<lparr>req_url = figma_url ''images/abc'' (Some (export_params stub_platform ''1:2'' ''png'' 1)),
           req_headers = [(''X-Figma-Token'', Some ''t0k3n'')]\<rparr>]\<rparr>) \<and>
   export_node stub_platform (Some ''t0k3n'') ''abc'' ''1:2'' ''png'' 1 (stub_world 200 no_image_doc_text) =
     (Inl (Error ''Ingen billed-URL retur fra Figma''),
      (stub_world 200 no_image_doc_text)\<lparr>calls :=
         [\<lparr>req_url = figma_url ''images/abc'' (Some (export_params stub_platform ''1:2'' ''png'' 1)),
           req_headers = [(''X-Figma-Token'', Some ''t0k3n'')]\<rparr>]\<rparr>)"
proof -
  have t: "''t0k3n'' \<noteq> []" by simp
  have u: "proto_get stub_platform (JObj []) ''1:2'' = JUndefined"
    by (simp add: stub_platform_def Object_prototype_def)
  have f1: "figma stub_platform (Some ''t0k3n'') (''images/'' @ ''abc'')
              (Some (export_params stub_platform ''1:2'' ''png'' 1)) (stub_world 200 images_doc_text) =
            (Inr images_doc, (stub_world 200 images_doc_text)\<lparr>calls :=
               [\<lparr>req_url = figma_url (''images/'' @ ''abc'') (Some (export_params stub_platform ''1:2'' ''png'' 1)),
                 req_headers = [(''X-Figma-Token'', Some ''t0k3n'')]\<rparr>]\<rparr>)"
    using figma_stub_200 [OF t] stub_parse_images by simp
  have f2: "figma stub_platform (Some ''t0k3n'') (''images/'' @ ''abc'')
              (Some (export_params stub_platform ''1:2'' ''png'' 1)) (stub_world 200 no_image_doc_text) =
            (Inr no_image_doc, (stub_world 200 no_image_doc_text)\<lparr>calls :=
               [\<lparr>req_url = figma_url (''images/'' @ ''abc'') (Some (export_params stub_platform ''1:2'' ''png'' 1)),
                 req_headers = [(''X-Figma-Token'', Some ''t0k3n'')]\<rparr>]\<rparr>)"
    using figma_stub_200 [OF t] stub_parse_no_image by simp
  show ?thesis
    using export_node_image_entry [OF f1 member_images_doc,
        of "[(''1:2'', JStr ''https://cdn.example/1-2.png'')]" "JStr ''https://cdn.example/1-2.png''"]
      export_node_image_entry [OF f2 member_no_image_doc, of "[]" JNull] u
    by simp
qed

text \<open>
  C3 as stated, that the invocation succeeds whenever the image map contains an entry for
  the node id, fails for an entry that is \<open>null\<close>: the map has the entry and the
  invocation fails.
\<close>

theorem null_image_entry_counterexample:
  "stub_parse null_image_doc_text = Inr (JObj [(''err'', JNull), (''images'', JObj [(''1:2'', JNull)])]) \<and>
   map_of [(''1:2'', JNull)] ''1:2'' = Some JNull \<and>
   fst (export_node stub_platform (Some ''t0k3n'') ''abc'' ''1:2'' ''png'' 1
          (stub_world 200 null_image_doc_text)) =
     Inl (Error ''Ingen billed-URL retur fra Figma'')"
proof -
  have t: "''t0k3n'' \<noteq> []" by simp
  have p: "stub_parse null_image_doc_text =
      Inr (JObj [(''err'', JNull), (''images'', JObj [(''1:2'', JNull)])])"
    using stub_parse_null_image by (simp add: null_image_doc_def)
  have e: "fst (export_node stub_platform (Some ''t0k3n'') ''abc'' ''1:2'' ''png'' 1
          (stub_world 200 null_image_doc_text)) = Inl (Error ''Ingen billed-URL retur fra Figma'')"
    by (simp add: export_node_def figma_stub_200 [OF t] stub_parse_null_image
        image_url_cases [OF member_null_image_doc] optional_index_def get_property_def)
  show ?thesis using p e by simp
qed

section \<open>Properties of the schemas and the invoker\<close>

lemma z_scale_rejects:
  assumes "v \<noteq> JUndefined" and "\<forall>n. v = JNum n \<longrightarrow> n < 1 / 10 \<or> 4 < n"
  shows "\<exists>c. z_scale path v = Inl [Issue c path]"
  using assms by (cases v) (auto simp: z_scale_def)

lemma z_format_rejects:
  assumes "v \<noteq> JUndefined" and "v \<noteq> JStr ''png''" and "v \<noteq> JStr ''svg''"
  shows "\<exists>c. z_format path v = Inl [Issue c path]"
  using assms by (cases v) (auto simp: z_format_def)

lemma z_scale_accepts:
  "z_scale path v = Inr s \<Longrightarrow>
   (v = JUndefined \<and> s = 1) \<or> (v = JNum s \<and> 1 / 10 \<le> s \<and> s \<le> 4)"
  by (cases v) (auto simp: z_scale_def split: if_splits)

lemma z_format_accepts:
  "z_format path v = Inr f \<Longrightarrow>
   (v = JUndefined \<and> f = ''png'') \<or> (v = JStr f \<and> (f = ''png'' \<or> f = ''svg''))"
  by (cases v) (auto simp: z_format_def split: if_splits)

lemma schema_issue_scale:
  assumes "z_scale [''scale''] (field kvs ''scale'') = Inl [Issue c [''scale'']]"
  shows "\<exists>is. export_node_schema (JObj kvs) = Inl is \<and> Issue c [''scale''] \<in> set is"
  using assms by (auto simp: export_node_schema_def Let_def issues_def split: sum.splits)

lemma schema_issue_format:
  assumes "z_format [''format''] (field kvs ''format'') = Inl [Issue c [''format'']]"
  shows "\<exists>is. export_node_schema (JObj kvs) = Inl is \<and> Issue c [''format''] \<in> set is"
  using assms by (auto simp: export_node_schema_def Let_def issues_def split: sum.splits)

lemma schema_accepts:
  assumes "export_node_schema (JObj kvs) = Inr a"
  shows "z_string [''fileKey''] (field kvs ''fileKey'') = Inr (fileKey a) \<and>
         z_string [''nodeId''] (field kvs ''nodeId'') = Inr (nodeId a) \<and>
         z_format [''format''] (field kvs ''format'') = Inr (format a) \<and>
         z_scale [''scale''] (field kvs ''scale'') = Inr (scale a)"
  using assms by (auto simp: export_node_schema_def Let_def split: sum.splits)

lemma invoke_export_invalid:
  assumes "toolName c = ''export-node''" and "export_node_schema (arguments c) = Inl is"
  shows "invoke p t c w = (Inl (ValidationError is), w)"
  using assms by (simp add: invoke_def)

lemma invoke_export_valid:
  assumes "toolName c = ''export-node''" and "export_node_schema (arguments c) = Inr a"
  shows "invoke p t c w =
           (case export_node p t (fileKey a) (nodeId a) (format a) (scale a) w of
              (Inl e, w') \<Rightarrow> (Inl (HandlerError e), w')
            | (Inr r, w') \<Rightarrow> (Inr r, w'))"
  using assms by (simp add: invoke_def)

text \<open>
  C5: an export-node invocation whose \<open>scale\<close> is given and is not a number in the range
  from 0.1 to 4, or whose \<open>format\<close> is given and is neither \<open>png\<close> nor \<open>svg\<close>, fails in
  validation with an issue whose path names the field, and the world is as it was: the
  backend is not called. When \<open>format\<close> or \<open>scale\<close> is omitted, the handler runs with
  \<open>png\<close> and \<open>1\<close> in its place; the handler only ever runs with a format of the two and a
  scale in the range.
\<close>

theorem export_node_validation:
  assumes "toolName c = ''export-node''" and "arguments c = JObj kvs"
  shows "(field kvs ''scale'' \<noteq> JUndefined \<and>
            (\<forall>n. field kvs ''scale'' = JNum n \<longrightarrow> n < 1 / 10 \<or> 4 < n) \<longrightarrow>
          (\<exists>is. invoke p t c w = (Inl (ValidationError is), w) \<and>
                (\<exists>i \<in> set is. issue_path i = [''scale'']))) \<and>
         (field kvs ''format'' \<noteq> JUndefined \<and> field kvs ''format'' \<noteq> JStr ''png'' \<and>
            field kvs ''format'' \<noteq> JStr ''svg'' \<longrightarrow>
          (\<exists>is. invoke p t c w = (Inl (ValidationError is), w) \<and>
                (\<exists>i \<in> set is. issue_path i = [''format'']))) \<and>
         (field kvs ''fileKey'' = JStr fk \<and> field kvs ''nodeId'' = JStr nid \<and>
            field kvs ''format'' = JUndefined \<and> field kvs ''scale'' = JUndefined \<longrightarrow>
          invoke p t c w =
            (case export_node p t fk nid ''png'' 1 w of
               (Inl e, w') \<Rightarrow> (Inl (HandlerError e), w')
             | (Inr r, w') \<Rightarrow> (Inr r, w'))) \<and>
         (\<forall>a. export_node_schema (arguments c) = Inr a \<longrightarrow>
            (field kvs ''format'' = JUndefined \<longrightarrow> format a = ''png'') \<and>
            (field kvs ''scale'' = JUndefined \<longrightarrow> scale a = 1) \<and>
            (format a = ''png'' \<or> format a = ''svg'') \<and> 1 / 10 \<le> scale a \<and> scale a \<le> 4 \<and>
            invoke p t c w =
              (case export_node p t (fileKey a) (nodeId a) (format a) (scale a) w of
                 (Inl e, w') \<Rightarrow> (Inl (HandlerError e), w')
               | (Inr r, w') \<Rightarrow> (Inr r, w')))"
proof (intro conjI impI allI)
  assume h: "field kvs ''scale'' \<noteq> JUndefined \<and>
            (\<forall>n. field kvs ''scale'' = JNum n \<longrightarrow> n < 1 / 10 \<or> 4 < n)"
  then obtain cd where "z_scale [''scale''] (field kvs ''scale'') = Inl [Issue cd [''scale'']]"
    using z_scale_rejects by blast
  then obtain iss where "export_node_schema (JObj kvs) = Inl iss" and "Issue cd [''scale''] \<in> set iss"
    using schema_issue_scale by blast
  then show "\<exists>is. invoke p t c w = (Inl (ValidationError is), w) \<and>
                (\<exists>i \<in> set is. issue_path i = [''scale''])"
    using invoke_export_invalid [OF assms(1), of iss] assms(2) by force
next
  assume h: "field kvs ''format'' \<noteq> JUndefined \<and> field kvs ''format'' \<noteq> JStr ''png'' \<and>
            field kvs ''format'' \<noteq> JStr ''svg''"
  then obtain cd where "z_format [''format''] (field kvs ''format'') = Inl [Issue cd [''format'']]"
    using z_format_rejects by blast
  then obtain iss where "export_node_schema (JObj kvs) = Inl iss" and "Issue cd [''format''] \<in> set iss"
    using schema_issue_format by blast
  then show "\<exists>is. invoke p t c w = (Inl (ValidationError is), w) \<and>
                (\<exists>i \<in> set is. issue_path i = [''format''])"
    using invoke_export_invalid [OF assms(1), of iss] assms(2) by force
next
  assume h: "field kvs ''fileKey'' = JStr fk \<and> field kvs ''nodeId'' = JStr nid \<and>
            field kvs ''format'' = JUndefined \<and> field kvs ''scale'' = JUndefined"
  then have "export_node_schema (arguments c) =
               Inr \<lparr>fileKey = fk, nodeId = nid, format = ''png'', scale = 1\<rparr>"
    using assms(2)
    by (simp add: export_node_schema_def z_string_def z_format_def z_scale_def)
  from invoke_export_valid [OF assms(1) this]
  show "invoke p t c w =
            (case export_node p t fk nid ''png'' 1 w of
               (Inl e, w') \<Rightarrow> (Inl (HandlerError e), w')
             | (Inr r, w') \<Rightarrow> (Inr r, w'))" by simp
next
  fix a assume a: "export_node_schema (arguments c) = Inr a"
  then have s: "export_node_schema (JObj kvs) = Inr a" using assms(2) by simp
  note acc = schema_accepts [OF s]
  from acc z_format_accepts [of "[''format'']" "field kvs ''format''" "format a"]
  have f: "(field kvs ''format'' = JUndefined \<and> format a = ''png'') \<or>
           (field kvs ''format'' = JStr (format a) \<and> (format a = ''png'' \<or> format a = ''svg''))"
    by blast
  from acc z_scale_accepts [of "[''scale'']" "field kvs ''scale''" "scale a"]
  have sc: "(field kvs ''scale'' = JUndefined \<and> scale a = 1) \<or>
            (field kvs ''scale'' = JNum (scale a) \<and> 1 / 10 \<le> scale a \<and> scale a \<le> 4)"
    by blast
  { assume "field kvs ''format'' = JUndefined"
    then show "format a = ''png''" using f by auto }
  { assume "field kvs ''scale'' = JUndefined"
    then show "scale a = 1" using sc by auto }
  show "format a = ''png'' \<or> format a = ''svg''" using f by auto
  show "1 / 10 \<le> scale a" using sc by auto
  show "scale a \<le> 4" using sc by auto
  show "invoke p t c w =
              (case export_node p t (fileKey a) (nodeId a) (format a) (scale a) w of
                 (Inl e, w') \<Rightarrow> (Inl (HandlerError e), w')
               | (Inr r, w') \<Rightarrow> (Inr r, w'))"
    by (rule invoke_export_valid [OF assms(1) a])
qed

lemma export_node_stub_success:
  "export_node stub_platform (Some ''t0k3n'') ''abc'' ''1:2'' ''png'' 1 (stub_world 200 images_doc_text) =
     (Inr \<lparr>content = [\<lparr>item_type = ''text'', item_text = JStr ''https://cdn.example/1-2.png''\<rparr>]\<rparr>,
      (stub_world 200 images_doc_text)\<lparr>calls :=
         [\<lparr>req_url = \<lparr>href_input = ''https://api.figma.com/v1/images/abc'',
                       searchParams = [(''ids'', ''1:2''), (''format'', ''png''), (''scale'', ''1'')]\<rparr>,
           req_headers = [(''X-Figma-Token'', Some ''t0k3n'')]\<rparr>]\<rparr>)"
proof -
  have t: "''t0k3n'' \<noteq> []" by simp
  have u: "figma_url ''images/abc'' (Some (export_params stub_platform ''1:2'' ''png'' 1)) =
      \<lparr>href_input = ''https://api.figma.com/v1/images/abc'',
       searchParams = [(''ids'', ''1:2''), (''format'', ''png''), (''scale'', ''1'')]\<rparr>"
    by (simp add: figma_url_def new_URL_def searchParams_set_def export_params_def
        stub_platform_def stub_number_def)
  have i: "image_url stub_platform ''Ingen billed-URL retur fra Figma'' images_doc ''1:2'' =
      Inr \<lparr>content = [\<lparr>item_type = ''text'', item_text = JStr ''https://cdn.example/1-2.png''\<rparr>]\<rparr>"
    by (simp add: image_url_def member_def images_doc_def get_property_def optional_index_def)
  show ?thesis
    by (simp add: export_node_def figma_stub_200 [OF t] stub_parse_images u i)
qed

text \<open>A scale of 5, a format \<open>jpg\<close>, and a call that omits both fields.\<close>

theorem export_node_validation_witness:
  "invoke stub_platform (Some ''t0k3n'')
     \<lparr>toolName = ''export-node'',
      arguments = JObj [(''fileKey'', JStr ''abc''), (''nodeId'', JStr ''1:2''), (''scale'', JNum 5)]\<rparr>
     (stub_world 200 images_doc_text) =
     (Inl (ValidationError [Issue too_big [''scale'']]), stub_world 200 images_doc_text) \<and>
   invoke stub_platform (Some ''t0k3n'')
     \<lparr>toolName = ''export-node'',
      arguments = JObj [(''fileKey'', JStr ''abc''), (''nodeId'', JStr ''1:2''), (''format'', JStr ''jpg'')]\<rparr>
     (stub_world 200 images_doc_text) =
     (Inl (ValidationError [Issue invalid_enum_value [''format'']]), stub_world 200 images_doc_text) \<and>
   calls (stub_world 200 images_doc_text) = [] \<and>
   invoke stub_platform (Some ''t0k3n'')
     \<lparr>toolName = ''export-node'',
      arguments = JObj [(''fileKey'', JStr ''abc''), (''nodeId'', JStr ''1:2'')]\<rparr>
     (stub_world 200 images_doc_text) =
     (Inr \<lparr>content = [\<lparr>item_type = ''text'', item_text = JStr ''https://cdn.example/1-2.png''\<rparr>]\<rparr>,
      (stub_world 200 images_doc_text)\<lparr>calls :=
         [\<lparr>req_url = \<lparr>href_input = ''https://api.figma.com/v1/images/abc'',
                       searchParams = [(''ids'', ''1:2''), (''format'', ''png''), (''scale'', ''1'')]\<rparr>,
           req_headers = [(''X-Figma-Token'', Some ''t0k3n'')]\<rparr>]\<rparr>)"
proof -
  let ?w = "stub_world 200 images_doc_text"
  let ?big = "[(''fileKey'', JStr ''abc''), (''nodeId'', JStr ''1:2''), (''scale'', JNum 5)]"
  let ?jpg = "[(''fileKey'', JStr ''abc''), (''nodeId'', JStr ''1:2''), (''format'', JStr ''jpg'')]"
  let ?dfl = "[(''fileKey'', JStr ''abc''), (''nodeId'', JStr ''1:2'')]"
  have big: "field ?big ''scale'' \<noteq> JUndefined \<and>
             (\<forall>n. field ?big ''scale'' = JNum n \<longrightarrow> n < 1 / 10 \<or> 4 < n)"
    by (simp add: field_def)
  have jpg: "field ?jpg ''format'' \<noteq> JUndefined \<and> field ?jpg ''format'' \<noteq> JStr ''png'' \<and>
             field ?jpg ''format'' \<noteq> JStr ''svg''"
    by (simp add: field_def)
  have dfl: "field ?dfl ''fileKey'' = JStr ''abc'' \<and> field ?dfl ''nodeId'' = JStr ''1:2'' \<and>
             field ?dfl ''format'' = JUndefined \<and> field ?dfl ''scale'' = JUndefined"
    by (simp add: field_def)
  have 1: "\<exists>is. invoke stub_platform (Some ''t0k3n'') \<lparr>toolName = ''export-node'', arguments = JObj ?big\<rparr> ?w =
             (Inl (ValidationError is), ?w) \<and> (\<exists>i \<in> set is. issue_path i = [''scale''])"
    using export_node_validation [of "\<lparr>toolName = ''export-node'', arguments = JObj ?big\<rparr>" ?big
        stub_platform "Some ''t0k3n''" ?w] big by simp
  have 2: "\<exists>is. invoke stub_platform (Some ''t0k3n'') \<lparr>toolName = ''export-node'', arguments = JObj ?jpg\<rparr> ?w =
             (Inl (ValidationError is), ?w) \<and> (\<exists>i \<in> set is. issue_path i = [''format''])"
    using export_node_validation [of "\<lparr>toolName = ''export-node'', arguments = JObj ?jpg\<rparr>" ?jpg
        stub_platform "Some ''t0k3n''" ?w] jpg by simp
  have 3: "invoke stub_platform (Some ''t0k3n'') \<lparr>toolName = ''export-node'', arguments = JObj ?dfl\<rparr> ?w =
             (case export_node stub_platform (Some ''t0k3n'') ''abc'' ''1:2'' ''png'' 1 ?w of
               (Inl e, w') \<Rightarrow> (Inl (HandlerError e), w')
             | (Inr r, w') \<Rightarrow> (Inr r, w'))"
    using export_node_validation [of "\<lparr>toolName = ''export-node'', arguments = JObj ?dfl\<rparr>" ?dfl
        stub_platform "Some ''t0k3n''" ?w "''abc''" "''1:2''"] dfl by simp
  have e1: "export_node_schema (JObj ?big) = Inl [Issue too_big [''scale'']]"
    by (simp add: export_node_schema_def field_def z_string_def z_format_def z_scale_def issues_def)
  have e2: "export_node_schema (JObj ?jpg) = Inl [Issue invalid_enum_value [''format'']]"
    by (simp add: export_node_schema_def field_def z_string_def z_format_def z_scale_def issues_def)
  have c: "calls ?w = []" by (simp add: stub_world_def)
  show ?thesis
    using 1 2 3 c by (simp add: invoke_def e1 e2 export_node_stub_success)
qed

section \<open>Properties of the HTTP handler\<close>

subsection \<open>The POST pipeline\<close>

text \<open>What the handlers do with a body that decodes: an error thrown by the invoker
  becomes a response 500 with the text of the error, a falsy body a response 400 before
  the invoker is called.\<close>

lemma handler_post_caught:
  assumes "http_method req = ''POST''"
    and "decode_body p (req_body req) = Inr b" and "truthy b"
    and "handleJSON b w = (Inl err, w')"
  shows "handler p t handleJSON req w =
           (Sent \<lparr>statusCode = 500, res_headers = cors [],
                  res_body = JsonBody (JObj [(''error'', JStr (error_text err))])\<rparr>, w')"
  using assms by (simp add: handler_def)

lemma handler_post_reply:
  assumes "http_method req = ''POST''"
    and "decode_body p (req_body req) = Inr b" and "truthy b"
    and "handleJSON b w = (Inr reply, w')"
  shows "handler p t handleJSON req w =
           (Sent \<lparr>statusCode = 200,
                  res_headers = setHeader ''Content-Type'' ''application/json'' (cors []),
                  res_body = JsonBody reply\<rparr>, w')"
  using assms by (simp add: handler_def)

lemma handler_post_missing_body:
  assumes "http_method req = ''POST''"
    and "decode_body p (req_body req) = Inr b" and "\<not> truthy b"
  shows "handler p t handleJSON req w =
           (Sent \<lparr>statusCode = 400, res_headers = cors [],
                  res_body = JsonBody (JObj [(''error'', JStr ''Missing JSON body'')])\<rparr>, w)"
  using assms by (simp add: handler_def)

lemma handler_srv_caught:
  assumes "http_method req \<noteq> ''OPTIONS''" and "http_method req \<noteq> ''GET''"
    and "decode_body p (req_body req) = Inr b" and "truthy b"
    and "handleJSON b w = (Inl err, w')"
  shows "handler_srv p t handleJSON req w =
           (Sent \<lparr>statusCode = 500, res_headers = cors [],
                  res_body = JsonBody (JObj [(''error'', JStr (error_text err))])\<rparr>, w')"
  using assms by (simp add: handler_srv_def)

lemma handler_srv_missing_body:
  assumes "http_method req \<noteq> ''OPTIONS''" and "http_method req \<noteq> ''GET''"
    and "decode_body p (req_body req) = Inr b" and "\<not> truthy b"
  shows "handler_srv p t handleJSON req w =
           (Sent \<lparr>statusCode = 400, res_headers = cors [],
                  res_body = JsonBody (JObj [(''error'', JStr ''Missing JSON body (MCP envelope)'')])\<rparr>, w)"
  using assms by (simp add: handler_srv_def)

lemma handler_post_unparsable:
  assumes "http_method req = ''POST''" and "decode_body p (req_body req) = Inl e"
  shows "handler p t handleJSON req w = (Raised e, w)"
  using assms by (simp add: handler_def)

lemma handler_srv_unparsable:
  assumes "http_method req \<noteq> ''OPTIONS''" and "http_method req \<noteq> ''GET''"
    and "decode_body p (req_body req) = Inl e"
  shows "handler_srv p t handleJSON req w = (Raised e, w)"
  using assms by (simp add: handler_srv_def)

text \<open>
  C2: every error raised in the pipeline of a POST request is returned as a response 500
  with the body \<open>{error: message}\<close>, except that a missing or unparsable body is returned
  as a response 400. The handlers decode the body with \<open>JSON.parse\<close> before the check for a
  missing body and outside the \<open>try\<close> block: on a body that is a string and not JSON text
  the \<open>SyntaxError\<close> leaves the handler, and no response is written, neither 400 nor 500.
\<close>

theorem unparsable_body_escapes_handler:
  "JSON_parse stub_platform ''{'' = Inl (SyntaxError ''Unexpected token'') \<and>
   handler stub_platform t handleJSON \<lparr>http_method = ''POST'', req_body = JStr ''{''\<rparr> w =
     (Raised (SyntaxError ''Unexpected token''), w) \<and>
   handler_srv stub_platform t handleJSON \<lparr>http_method = ''POST'', req_body = JStr ''{''\<rparr> w =
     (Raised (SyntaxError ''Unexpected token''), w)"
  by (simp add: handler_def handler_srv_def decode_body_def stub_platform_def stub_parse_def
      file_doc_compact_def file_doc_pretty_def images_doc_text_def null_image_doc_text_def
      no_image_doc_text_def)

subsection \<open>The fallback\<close>

text \<open>
  C8: a request whose method is none of OPTIONS, GET and POST is answered with status 200
  and a JSON body of exactly the four fields \<open>ok: true\<close>, \<open>server: "figma-mcp"\<close>, \<open>env\<close>,
  which is true if and only if the access token is set in the environment to a string
  that is not empty, and the list \<open>methods\<close>.
\<close>

theorem fallback_status:
  assumes "http_method req \<noteq> ''OPTIONS''" and "http_method req \<noteq> ''GET''"
    and "http_method req \<noteq> ''POST''"
  shows "handler p FIGMA_TOKEN handleJSON req w =
           (Sent \<lparr>statusCode = 200, res_headers = cors [],
                  res_body = JsonBody (JObj
                    [(''ok'', JBool True),
                     (''server'', JStr ''figma-mcp''),
                     (''env'', JBool (\<exists>tok. FIGMA_TOKEN = Some tok \<and> tok \<noteq> [])),
                     (''methods'', JArr [JStr ''GET (SSE)'', JStr ''POST (JSON-RPC)''])])\<rparr>, w)"
  using assms by (cases FIGMA_TOKEN) (simp_all add: handler_def token_present_def)

text \<open>A PUT without the token, a DELETE with it.\<close>

theorem fallback_status_witness:
  "handler stub_platform None (\<lambda>b w. (Inr JNull, w)) \<lparr>http_method = ''PUT'', req_body = JUndefined\<rparr>
     (stub_world 200 file_doc_compact) =
     (Sent \<lparr>statusCode = 200,
            res_headers = [(''Access-Control-Allow-Origin'', ''*''),
                           (''Access-Control-Allow-Methods'', ''POST, GET, OPTIONS''),
                           (''Access-Control-Allow-Headers'', ''Content-Type'')],
            res_body = JsonBody (JObj
              [(''ok'', JBool True), (''server'', JStr ''figma-mcp''), (''env'', JBool False),
               (''methods'', JArr [JStr ''GET (SSE)'', JStr ''POST (JSON-RPC)''])])\<rparr>,
      stub_world 200 file_doc_compact) \<and>
   handler stub_platform (Some ''t0k3n'') (\<lambda>b w. (Inr JNull, w))
     \<lparr>http_method = ''DELETE'', req_body = JUndefined\<rparr> (stub_world 200 file_doc_compact) =
     (Sent \<lparr>statusCode = 200,
            res_headers = [(''Access-Control-Allow-Origin'', ''*''),
                           (''Access-Control-Allow-Methods'', ''POST, GET, OPTIONS''),
                           (''Access-Control-Allow-Headers'', ''Content-Type'')],
            res_body = JsonBody (JObj
              [(''ok'', JBool True), (''server'', JStr ''figma-mcp''), (''env'', JBool True),
               (''methods'', JArr [JStr ''GET (SSE)'', JStr ''POST (JSON-RPC)''])])\<rparr>,
      stub_world 200 file_doc_compact)"
proof -
  have a: "http_method \<lparr>http_method = ''PUT'', req_body = JUndefined\<rparr> \<noteq> ''OPTIONS''"
    and b: "http_method \<lparr>http_method = ''PUT'', req_body = JUndefined\<rparr> \<noteq> ''GET''"
    and c: "http_method \<lparr>http_method = ''PUT'', req_body = JUndefined\<rparr> \<noteq> ''POST''"
    by simp_all
  have a': "http_method \<lparr>http_method = ''DELETE'', req_body = JUndefined\<rparr> \<noteq> ''OPTIONS''"
    and b': "http_method \<lparr>http_method = ''DELETE'', req_body = JUndefined\<rparr> \<noteq> ''GET''"
    and c': "http_method \<lparr>http_method = ''DELETE'', req_body = JUndefined\<rparr> \<noteq> ''POST''"
    by simp_all
  show ?thesis
    using fallback_status [OF a b c, of stub_platform None "\<lambda>b w. (Inr JNull, w)" "stub_world 200 file_doc_compact"]
      fallback_status [OF a' b' c', of stub_platform "Some ''t0k3n''" "\<lambda>b w. (Inr JNull, w)" "stub_world 200 file_doc_compact"]
    by (simp add: cors_def)
qed

subsection \<open>The event stream\<close>

lemma tick_running:
  assumes "keepAlive s = Some (period, due)"
  shows "tick s =
           (if Suc (now s) = due
            then s\<lparr>now := Suc (now s), keepAlive := Some (period, due + period),
                   written := written s @ [(Suc (now s), ping_event)]\<rparr>
            else s\<lparr>now := Suc (now s)\<rparr>)"
  using assms by (simp add: tick_def keepAlive_callback_def Let_def)

lemma tick_cleared:
  assumes "keepAlive s = None"
  shows "tick s = s\<lparr>now := Suc (now s)\<rparr>"
  using assms by (simp add: tick_def Let_def)

lemma due_iff:
  fixes P :: nat
  shows "(Suc t = P * Suc (t div P)) = (Suc t mod P = 0)"
proof
  assume "Suc t = P * Suc (t div P)"
  then have "Suc t mod P = (P * Suc (t div P)) mod P" by simp
  then show "Suc t mod P = 0" by simp
next
  assume z: "Suc t mod P = 0"
  then have "Suc t = P * (Suc t div P)" by (metis mult_div_mod_eq add.right_neutral)
  moreover have "Suc t div P = Suc (t div P)" using z by (simp add: div_Suc)
  ultimately show "Suc t = P * Suc (t div P)" by simp
qed

lemma elapse_running:
  assumes "keepAlive s = Some (P, P)" and "now s = 0"
  shows "elapse t s =
           s\<lparr>now := t,
              keepAlive := Some (P, P * Suc (t div P)),
              written := written s @ map (\<lambda>k. (P * k, ping_event)) [1..<Suc (t div P)]\<rparr>"
proof (induction t)
  case 0
  show ?case using assms by (cases s) simp
next
  case (Suc t)
  let ?S = "s\<lparr>now := t, keepAlive := Some (P, P * Suc (t div P)),
              written := written s @ map (\<lambda>k. (P * k, ping_event)) [1..<Suc (t div P)]\<rparr>"
  have k: "keepAlive ?S = Some (P, P * Suc (t div P))" and n: "now ?S = t" by simp_all
  have step: "elapse (Suc t) s = tick ?S" by (simp add: Suc.IH)
  show ?case
  proof (cases "Suc t mod P = 0")
    case True
    then have d: "Suc t = P * Suc (t div P)" by (simp only: due_iff)
    have q: "Suc t div P = Suc (t div P)" using True by (simp add: div_Suc)
    have "tick ?S = ?S\<lparr>now := Suc t, keepAlive := Some (P, P * Suc (t div P) + P),
                         written := written ?S @ [(Suc t, ping_event)]\<rparr>"
      unfolding tick_running [OF k] n using d by simp
    also have "\<dots> = s\<lparr>now := Suc t,
              keepAlive := Some (P, P * Suc (Suc t div P)),
              written := written s @ map (\<lambda>k. (P * k, ping_event)) [1..<Suc (Suc t div P)]\<rparr>"
      unfolding q using d by simp
    finally show ?thesis using step by simp
  next
    case False
    then have d: "Suc t \<noteq> P * Suc (t div P)" by (simp only: due_iff) simp
    have q: "Suc t div P = t div P" using False by (simp add: div_Suc)
    have "tick ?S = ?S\<lparr>now := Suc t\<rparr>"
      unfolding tick_running [OF k] n using d by simp
    also have "\<dots> = s\<lparr>now := Suc t,
              keepAlive := Some (P, P * Suc (Suc t div P)),
              written := written s @ map (\<lambda>k. (P * k, ping_event)) [1..<Suc (Suc t div P)]\<rparr>"
      unfolding q by simp
    finally show ?thesis using step by simp
  qed
qed

lemma elapse_open:
  "elapse t (sse_open hs) =
     (sse_open hs)\<lparr>now := t,
                    keepAlive := Some (30000, 30000 * Suc (t div 30000)),
                    written := (0, initialized_event) #
                      map (\<lambda>k. (30000 * k, ping_event)) [1..<Suc (t div 30000)]\<rparr>"
proof -
  have "keepAlive (sse_open hs) = Some (30000, 30000)" and "now (sse_open hs) = 0"
    and "written (sse_open hs) = [(0, initialized_event)]"
    by (simp_all add: sse_open_def)
  then show ?thesis using elapse_running [of "sse_open hs" 30000 t] by simp
qed

lemma elapse_cleared:
  "keepAlive s = None \<Longrightarrow> elapse u s = s\<lparr>now := now s + u\<rparr>"
  by (induction u) (simp_all add: tick_cleared)

lemma elapse_after_close:
  "elapse u (client_close (elapse t (sse_open hs))) =
     (elapse t (sse_open hs))\<lparr>keepAlive := None, ended := True, now := t + u\<rparr>"
proof -
  have c: "client_close (elapse t (sse_open hs)) =
             (elapse t (sse_open hs))\<lparr>keepAlive := None, ended := True\<rparr>"
  proof -
    have "close_listener (elapse t (sse_open hs))"
      by (simp add: elapse_open) (simp add: sse_open_def)
    then show ?thesis by (simp add: client_close_def)
  qed
  have n: "now (elapse t (sse_open hs)) = t" by (simp add: elapse_open)
  show ?thesis unfolding c by (simp add: elapse_cleared n)
qed

text \<open>
  C6: a GET request opens an event stream. The first chunk written, at the time of the
  request, is the \<open>initialized\<close> notification; every later chunk is the \<open>ping\<close>
  notification, the \<open>k\<close>th of them written 30000 \<open>k\<close> milliseconds after the request.
  After the client disconnects, at any time \<open>t\<close>, nothing more is written however much
  time \<open>u\<close> passes, the timer is cleared, and the response is ended.
\<close>

theorem sse_stream_events:
  \<open>handler p FIGMA_TOKEN handleJSON \<lparr>http_method = ''GET'', req_body = b\<rparr> w =
     (Stream (sse_open (cors [])), w) \<and>
   written (elapse t (sse_open hs)) =
     (0, ''data: {"jsonrpc":"2.0","method":"initialized","params":{}}\<newline>\<newline>'') #
     map (\<lambda>k. (30000 * k, ''data: {"jsonrpc":"2.0","method":"ping"}\<newline>\<newline>''))
       [1..<Suc (t div 30000)] \<and>
   written (elapse u (client_close (elapse t (sse_open hs)))) = written (elapse t (sse_open hs)) \<and>
   keepAlive (elapse u (client_close (elapse t (sse_open hs)))) = None \<and>
   ended (elapse u (client_close (elapse t (sse_open hs))))\<close>
proof -
  have h: "handler p FIGMA_TOKEN handleJSON \<lparr>http_method = ''GET'', req_body = b\<rparr> w =
     (Stream (sse_open (cors [])), w)"
    by (simp add: handler_def)
  have c: "written (elapse u (client_close (elapse t (sse_open hs)))) = written (elapse t (sse_open hs))"
    "keepAlive (elapse u (client_close (elapse t (sse_open hs)))) = None"
    "ended (elapse u (client_close (elapse t (sse_open hs))))"
    unfolding elapse_after_close by simp_all
  have e: "written (elapse t (sse_open hs)) =
     (0, initialized_event) # map (\<lambda>k. (30000 * k, ping_event)) [1..<Suc (t div 30000)]"
    by (simp add: elapse_open)
  show ?thesis
    using h c e unfolding initialized_event_def ping_event_def by simp
qed

end
